theory Spec2Isabelle
  imports Complex_Main
begin

section \<open>Values, errors and the numeric type check\<close>

text \<open>
  The components of a quaternion and of a point are Python numbers (\<^verbatim>\<open>int\<close> or
  \<^verbatim>\<open>float\<close>). A number is modelled by the real it denotes and the arithmetic is
  exact: the rounding of IEEE doubles and their overflow to infinity are outside the
  model. So the theorems below are about what the code computes step by step; where the
  running program departs from exact arithmetic on an input it can receive (a squared
  norm that overflows, the floor division of Python 2 on ints), that is said at the
  definition and at the lemma concerned. The sources
  are Python 2 (\<^verbatim>\<open>quaternion.py\<close> mixes a tab into space indentation and imports
  no \<^verbatim>\<open>division\<close> from \<^verbatim>\<open>__future__\<close>), where \<^verbatim>\<open>/\<close> on two ints is floor
  division. The record fields are \<open>qo qi qj qk\<close> for the members \<^verbatim>\<open>o i j k\<close>
  of \<^verbatim>\<open>Quaternion\<close>, \<open>px py pz\<close> for the members \<^verbatim>\<open>x y z\<close> of
  \<^verbatim>\<open>Point3D\<close>, and \<open>rot_r rot_theta rot_q\<close> for the private members
  \<^verbatim>\<open>__r __theta __q\<close> of \<^verbatim>\<open>Rotation\<close>.
\<close>

record quaternion =
  qo :: real
  qi :: real
  qj :: real
  qk :: real

record point3d =
  px :: real
  py :: real
  pz :: real

record rotation =
  rot_r :: point3d
  rot_theta :: real
  rot_q :: quaternion

text \<open>
  The methods are dynamically typed: an argument is any Python value. The values that
  the code tells apart are numbers, quaternions, points, and everything else (a string,
  \<^verbatim>\<open>None\<close>).
\<close>

datatype pyval =
  PyNum real
  | PyStr string
  | PyNone
  | PyQuaternion quaternion
  | PyPoint3D point3d

text \<open>
  The three exception classes of the code, each carrying its message, and the
  \<^verbatim>\<open>ValueError\<close> of \<^verbatim>\<open>math.sqrt\<close>.
\<close>

datatype error =
  QuaternionException string
  | PointException string
  | RotationException string
  | ValueError string

text \<open>
  Modelled from the spec: the module \<^verbatim>\<open>exception\<close> (the base class
  \<^verbatim>\<open>IException\<close>) is not among the sources. Section 7 of the specification says
  that a failure is a signalled error carrying a descriptive message, so the text of an
  exception, as \<^verbatim>\<open>format\<close> renders it, is that message.
\<close>

fun exc_str :: "error \<Rightarrow> string" where
  "exc_str (QuaternionException m) = m"
| "exc_str (PointException m) = m"
| "exc_str (RotationException m) = m"
| "exc_str (ValueError m) = m"

text \<open>\<^verbatim>\<open>Quaternion.eps\<close>, the tolerance \<^verbatim>\<open>1e-12\<close>.\<close>

definition eps :: real where
  "eps = 1 / 10 ^ 12"

text \<open>\<^verbatim>\<open>InstanceCheck.isFloat\<close>: a float or an integer.\<close>

definition isFloat :: "pyval \<Rightarrow> bool" where
  "isFloat n = (case n of PyNum _ \<Rightarrow> True | _ \<Rightarrow> False)"

definition isQuaternion :: "pyval \<Rightarrow> bool" where
  "isQuaternion v = (case v of PyQuaternion _ \<Rightarrow> True | _ \<Rightarrow> False)"

definition isPoint3D :: "pyval \<Rightarrow> bool" where
  "isPoint3D p = (case p of PyPoint3D _ \<Rightarrow> True | _ \<Rightarrow> False)"

text \<open>\<^verbatim>\<open>math.sqrt\<close> raises \<^verbatim>\<open>ValueError\<close> on a negative argument.\<close>

definition math_sqrt :: "real \<Rightarrow> error + real" where
  "math_sqrt x = (if x < 0 then Inl (ValueError ''math domain error'') else Inr (sqrt x))"

section \<open>Quaternion\<close>

text \<open>
  \<^verbatim>\<open>Quaternion.__init__\<close>, which is \<^verbatim>\<open>setQ\<close> on the new object: a quaternion
  as first argument is copied and the other arguments are ignored; otherwise all four
  arguments must pass \<^verbatim>\<open>isFloat\<close>.
\<close>

definition Quaternion_init :: "pyval \<Rightarrow> pyval \<Rightarrow> pyval \<Rightarrow> pyval \<Rightarrow> error + quaternion" where
  "Quaternion_init a b c d =
     (case a of
        PyQuaternion q0 \<Rightarrow> Inr \<lparr>qo = qo q0, qi = qi q0, qj = qj q0, qk = qk q0\<rparr>
      | _ \<Rightarrow>
        (case (a, b, c, d) of
           (PyNum a', PyNum b', PyNum c', PyNum d') \<Rightarrow>
             Inr \<lparr>qo = a', qi = b', qj = c', qk = d'\<rparr>
         | _ \<Rightarrow> Inl (QuaternionException ''Invalid input arguments'')))"

text \<open>
  The four setters. A mutator yields a pair: what the call does (\<open>Inl\<close> the exception
  raised, \<open>Inr\<close> the object returned) and the receiver as the call leaves it.
\<close>

definition setScalar :: "quaternion \<Rightarrow> pyval \<Rightarrow> (error + quaternion) \<times> quaternion" where
  "setScalar self v =
     (case v of
        PyNum x \<Rightarrow> (let self' = self\<lparr>qo := x\<rparr> in (Inr self', self'))
      | _ \<Rightarrow> (Inl (QuaternionException ''Invalid input argument''), self))"

definition setI :: "quaternion \<Rightarrow> pyval \<Rightarrow> (error + quaternion) \<times> quaternion" where
  "setI self v =
     (case v of
        PyNum x \<Rightarrow> (let self' = self\<lparr>qi := x\<rparr> in (Inr self', self'))
      | _ \<Rightarrow> (Inl (QuaternionException ''Invalid input argument''), self))"

definition setJ :: "quaternion \<Rightarrow> pyval \<Rightarrow> (error + quaternion) \<times> quaternion" where
  "setJ self v =
     (case v of
        PyNum x \<Rightarrow> (let self' = self\<lparr>qj := x\<rparr> in (Inr self', self'))
      | _ \<Rightarrow> (Inl (QuaternionException ''Invalid input argument''), self))"

definition setK :: "quaternion \<Rightarrow> pyval \<Rightarrow> (error + quaternion) \<times> quaternion" where
  "setK self v =
     (case v of
        PyNum x \<Rightarrow> (let self' = self\<lparr>qk := x\<rparr> in (Inr self', self'))
      | _ \<Rightarrow> (Inl (QuaternionException ''Invalid input argument''), self))"

text \<open>\<^verbatim>\<open>__mul__\<close>: the operand is tested for a quaternion first, then for a number.\<close>

definition mul :: "quaternion \<Rightarrow> pyval \<Rightarrow> error + quaternion" where
  "mul self q =
     (case q of
        PyQuaternion q' \<Rightarrow>
          Quaternion_init
            (PyNum (qo self * qo q' - qi self * qi q' - qj self * qj q' - qk self * qk q'))
            (PyNum (qo self * qi q' + qi self * qo q' + qj self * qk q' - qk self * qj q'))
            (PyNum (qo self * qj q' - qi self * qk q' + qj self * qo q' + qk self * qi q'))
            (PyNum (qo self * qk q' + qi self * qj q' - qj self * qi q' + qk self * qo q'))
      | PyNum s \<Rightarrow>
          Quaternion_init
            (PyNum (qo self * s)) (PyNum (qi self * s)) (PyNum (qj self * s)) (PyNum (qk self * s))
      | _ \<Rightarrow> Inl (QuaternionException ''Input must be a quaternion or a float''))"

text \<open>\<^verbatim>\<open>__iadd__\<close> and \<^verbatim>\<open>__imul__\<close> overwrite the receiver and return it.\<close>

definition iadd :: "quaternion \<Rightarrow> pyval \<Rightarrow> (error + quaternion) \<times> quaternion" where
  "iadd self q =
     (case q of
        PyQuaternion q' \<Rightarrow>
          (let self' = \<lparr>qo = qo self + qo q', qi = qi self + qi q',
                        qj = qj self + qj q', qk = qk self + qk q'\<rparr>
           in (Inr self', self'))
      | PyNum s \<Rightarrow> (let self' = self\<lparr>qo := qo self + s\<rparr> in (Inr self', self'))
      | _ \<Rightarrow> (Inl (QuaternionException ''Input must be a quaternion or a float''), self))"

definition imul :: "quaternion \<Rightarrow> pyval \<Rightarrow> (error + quaternion) \<times> quaternion" where
  "imul self q =
     (case q of
        PyQuaternion q' \<Rightarrow>
          (let self' =
             \<lparr>qo = qo self * qo q' - qi self * qi q' - qj self * qj q' - qk self * qk q',
              qi = qo self * qi q' + qi self * qo q' + qj self * qk q' - qk self * qj q',
              qj = qo self * qj q' - qi self * qk q' + qj self * qo q' + qk self * qi q',
              qk = qo self * qk q' + qi self * qj q' - qj self * qi q' + qk self * qo q'\<rparr>
           in (Inr self', self'))
      | PyNum s \<Rightarrow>
          (let self' = \<lparr>qo = qo self * s, qi = qi self * s, qj = qj self * s, qk = qk self * s\<rparr>
           in (Inr self', self'))
      | _ \<Rightarrow> (Inl (QuaternionException ''Input must be a quaternion or a float''), self))"

text \<open>\<^verbatim>\<open>conj\<close>, \<^verbatim>\<open>__sqsum\<close> and \<^verbatim>\<open>norm\<close>.\<close>

definition conj_q :: "quaternion \<Rightarrow> error + quaternion" where
  "conj_q self =
     Quaternion_init (PyNum (qo self)) (PyNum (- qi self)) (PyNum (- qj self)) (PyNum (- qk self))"

definition sqsum :: "quaternion \<Rightarrow> real" where
  "sqsum self = qo self * qo self + qi self * qi self + qj self * qj self + qk self * qk self"

definition norm_q :: "quaternion \<Rightarrow> error + real" where
  "norm_q self = math_sqrt (sqsum self)"

text \<open>
  \<^verbatim>\<open>reciprocal\<close> on a quaternion with a float among its members: \<^verbatim>\<open>nsq\<close> is then
  a float and each \<^verbatim>\<open>/\<close> is a true division. (In double arithmetic a squared norm
  that overflows is infinite, and the quotients are zeros.)
\<close>

definition reciprocal :: "quaternion \<Rightarrow> error + quaternion" where
  "reciprocal self =
     (let nsq = sqsum self in
      if nsq < eps
      then Inl (QuaternionException ''Reciprocal of a zero-quaternion does not exist'')
      else Quaternion_init (PyNum (qo self / nsq)) (PyNum (- qi self / nsq))
             (PyNum (- qj self / nsq)) (PyNum (- qk self / nsq)))"

text \<open>
  \<^verbatim>\<open>reciprocal\<close> on a quaternion whose four members are ints \<open>a b c d\<close>:
  \<^verbatim>\<open>nsq\<close> is an int, and \<^verbatim>\<open>self.o / nsq\<close>, \<^verbatim>\<open>-self.i / nsq\<close>, ... are the floor
  divisions of Python 2, which \<open>div\<close> on \<open>int\<close> is. The members of the result are
  ints again. (Ints beyond the machine range, which Python 2 turns into
  \<^verbatim>\<open>long\<close>, are not modelled.)
\<close>

definition reciprocal_ints :: "int \<Rightarrow> int \<Rightarrow> int \<Rightarrow> int \<Rightarrow> error + quaternion" where
  "reciprocal_ints a b c d =
     (let nsq = a * a + b * b + c * c + d * d in
      if real_of_int nsq < eps
      then Inl (QuaternionException ''Reciprocal of a zero-quaternion does not exist'')
      else Quaternion_init (PyNum (real_of_int (a div nsq))) (PyNum (real_of_int ((- b) div nsq)))
             (PyNum (real_of_int ((- c) div nsq))) (PyNum (real_of_int ((- d) div nsq))))"

text \<open>
  \<^verbatim>\<open>unit\<close>: \<^verbatim>\<open>norm()\<close> returns a float, so each \<^verbatim>\<open>/\<close> is a true division.
  (In double arithmetic a squared norm that overflows makes \<^verbatim>\<open>norm()\<close> infinite: the
  guard does not fire and the quotients are zeros.)
\<close>

definition unit_q :: "quaternion \<Rightarrow> error + quaternion" where
  "unit_q self =
     (case norm_q self of
        Inl e \<Rightarrow> Inl e
      | Inr n \<Rightarrow>
          if n < eps
          then Inl (QuaternionException ''Cannot normalize a zero-quaternion'')
          else Quaternion_init (PyNum (qo self / n)) (PyNum (qi self / n))
                 (PyNum (qj self / n)) (PyNum (qk self / n)))"

section \<open>Point3D\<close>

text \<open>
  \<^verbatim>\<open>Point3D.__init__\<close>: three numbers, or else a point as first argument, which is
  copied (\<^verbatim>\<open>setPoint\<close>).
\<close>

definition Point3D_init :: "pyval \<Rightarrow> pyval \<Rightarrow> pyval \<Rightarrow> error + point3d" where
  "Point3D_init x y z =
     (case (x, y, z) of
        (PyNum x', PyNum y', PyNum z') \<Rightarrow> Inr \<lparr>px = x', py = y', pz = z'\<rparr>
      | _ \<Rightarrow>
        (case x of
           PyPoint3D p \<Rightarrow> Inr \<lparr>px = px p, py = py p, pz = pz p\<rparr>
         | _ \<Rightarrow> Inl (PointException ''Invalid input arguments'')))"

definition sqSum :: "point3d \<Rightarrow> real" where
  "sqSum self = px self * px self + py self * py self + pz self * pz self"

section \<open>Rotation\<close>

text \<open>
  The handler of \<^verbatim>\<open>__update\<close>: a \<^verbatim>\<open>QuaternionException\<close> is caught and
  re-raised as a \<^verbatim>\<open>RotationException\<close> whose message quotes the caught one; any
  other exception passes through.
\<close>

fun update_handler :: "error \<Rightarrow> error" where
  "update_handler (QuaternionException m) =
     RotationException (''Could not generate a rotation quaternion: '' @ [CHR 0x27]
        @ exc_str (QuaternionException m) @ [CHR 0x27])"
| "update_handler e = e"

text \<open>
  \<^verbatim>\<open>__update\<close>. A method of \<^verbatim>\<open>Rotation\<close> yields the exception raised, if any,
  and the object as the call leaves it. The assignment to \<^verbatim>\<open>__q\<close> happens only
  after \<^verbatim>\<open>unit()\<close> has returned, so a failing normalization leaves \<^verbatim>\<open>__q\<close> as
  it was.
\<close>

definition update :: "rotation \<Rightarrow> error option \<times> rotation" where
  "update self =
     (case Quaternion_init (PyNum 0) (PyNum (px (rot_r self))) (PyNum (py (rot_r self)))
             (PyNum (pz (rot_r self))) of
        Inl e \<Rightarrow> (Some (update_handler e), self)
      | Inr pq \<Rightarrow>
        (case unit_q pq of
           Inl e \<Rightarrow> (Some (update_handler e), self)
         | Inr u \<Rightarrow>
           (let s1 = self\<lparr>rot_q := u\<rparr>;
                s2 = s1\<lparr>rot_r := \<lparr>px = qi (rot_q s1), py = qj (rot_q s1), pz = qk (rot_q s1)\<rparr>\<rparr>
            in (case imul (rot_q s2) (PyNum (sin (0.5 * rot_theta s2))) of
                  (Inl e, q') \<Rightarrow> (Some (update_handler e), s2\<lparr>rot_q := q'\<rparr>)
                | (Inr q1, _) \<Rightarrow>
                  (let s3 = s2\<lparr>rot_q := q1\<rparr>
                   in (case iadd (rot_q s3) (PyNum (cos (0.5 * rot_theta s3))) of
                         (Inl e, q') \<Rightarrow> (Some (update_handler e), s3\<lparr>rot_q := q'\<rparr>)
                       | (Inr q2, _) \<Rightarrow> (None, s3\<lparr>rot_q := q2\<rparr>)))))))"

text \<open>
  \<^verbatim>\<open>setAxis\<close>: the new point is stored in \<^verbatim>\<open>__r\<close> before \<^verbatim>\<open>__update\<close> runs.
\<close>

definition setAxis :: "rotation \<Rightarrow> pyval \<Rightarrow> pyval \<Rightarrow> pyval \<Rightarrow> error option \<times> rotation" where
  "setAxis self rx ry rz =
     (case Point3D_init rx ry rz of
        Inl (PointException m) \<Rightarrow> (Some (RotationException ''Invalid input argument''), self)
      | Inl e \<Rightarrow> (Some e, self)
      | Inr p \<Rightarrow> update (self\<lparr>rot_r := p\<rparr>))"

definition setAngle :: "rotation \<Rightarrow> pyval \<Rightarrow> error option \<times> rotation" where
  "setAngle self angle =
     (case angle of
        PyNum a \<Rightarrow> update (self\<lparr>rot_theta := a\<rparr>)
      | _ \<Rightarrow> (Some (RotationException ''Angle must be float value''), self))"

text \<open>
  \<^verbatim>\<open>Rotation.__init__\<close>. The object under construction has no members yet;
  \<^verbatim>\<open>__init__\<close> assigns \<^verbatim>\<open>__theta\<close>, and \<^verbatim>\<open>setAxis\<close> and \<^verbatim>\<open>__update\<close>
  assign \<^verbatim>\<open>__r\<close> and \<^verbatim>\<open>__q\<close> before anything reads them, so the values that
  \<open>new_rotation\<close> gives them are never seen (lemma \<open>setAxis_new\<close> below). A constructor
  that raises yields no object.
\<close>

definition new_rotation :: rotation where
  "new_rotation = \<lparr>rot_r = \<lparr>px = 0, py = 0, pz = 0\<rparr>, rot_theta = 0,
                    rot_q = \<lparr>qo = 0, qi = 0, qj = 0, qk = 0\<rparr>\<rparr>"

definition Rotation_init :: "pyval \<Rightarrow> pyval \<Rightarrow> pyval \<Rightarrow> pyval \<Rightarrow> error + rotation" where
  "Rotation_init rx ry rz angle =
     (case angle of
        PyNum a \<Rightarrow>
          (case setAxis (new_rotation\<lparr>rot_theta := a\<rparr>) rx ry rz of
             (Some e, _) \<Rightarrow> Inl e
           | (None, self) \<Rightarrow> Inr self)
      | _ \<Rightarrow> Inl (RotationException ''Angle must be a float value''))"

text \<open>
  \<^verbatim>\<open>getAxis\<close> multiplies the members of \<^verbatim>\<open>__r\<close> by \<^verbatim>\<open>factor\<close>, a number
  (1.0 by default). What \<^verbatim>\<open>*\<close> does with a factor that is not a number depends on
  whether the members are ints or floats; only numeric factors are modelled.
\<close>

definition getAxis :: "rotation \<Rightarrow> real \<Rightarrow> error + point3d" where
  "getAxis self factor =
     Point3D_init (PyNum (px (rot_r self) * factor)) (PyNum (py (rot_r self) * factor))
       (PyNum (pz (rot_r self) * factor))"

definition getAngle :: "rotation \<Rightarrow> real" where
  "getAngle self = rot_theta self"

definition getRotationQuaternion :: "rotation \<Rightarrow> quaternion" where
  "getRotationQuaternion self = rot_q self"

text \<open>
  \<^verbatim>\<open>rotate\<close>: \<^verbatim>\<open>self.__q * pq * self.__q.conj()\<close> associates to the left.
\<close>

definition rotate_rot :: "rotation \<Rightarrow> pyval \<Rightarrow> error + point3d" where
  "rotate_rot self p =
     (case p of
        PyPoint3D pt \<Rightarrow>
          (case Quaternion_init (PyNum 0) (PyNum (px pt)) (PyNum (py pt)) (PyNum (pz pt)) of
             Inl e \<Rightarrow> Inl e
           | Inr pq \<Rightarrow>
             (case mul (rot_q self) (PyQuaternion pq) of
                Inl e \<Rightarrow> Inl e
              | Inr qp \<Rightarrow>
                (case conj_q (rot_q self) of
                   Inl e \<Rightarrow> Inl e
                 | Inr qc \<Rightarrow>
                   (case mul qp (PyQuaternion qc) of
                      Inl e \<Rightarrow> Inl e
                    | Inr pqr \<Rightarrow>
                        Point3D_init (PyNum (qi pqr)) (PyNum (qj pqr)) (PyNum (qk pqr))))))
      | _ \<Rightarrow> Inl (RotationException ''Input must be an instance of Point3D''))"

section \<open>The operations as the specification words them\<close>

text \<open>
  The definitions of this section follow the sentences of the specification, not the
  code: the embedding of a point as a pure quaternion, the Hamilton product, the
  conjugate, the vector part, the uniform scaling, and the quaternion 1. The theorems
  below compare the methods of the code with them.
\<close>

definition pure_quaternion :: "point3d \<Rightarrow> quaternion" where
  "pure_quaternion p = \<lparr>qo = 0, qi = px p, qj = py p, qk = pz p\<rparr>"

definition hamilton :: "quaternion \<Rightarrow> quaternion \<Rightarrow> quaternion" where
  "hamilton q1 q2 =
     \<lparr>qo = qo q1 * qo q2 - qi q1 * qi q2 - qj q1 * qj q2 - qk q1 * qk q2,
      qi = qo q1 * qi q2 + qi q1 * qo q2 + qj q1 * qk q2 - qk q1 * qj q2,
      qj = qo q1 * qj q2 - qi q1 * qk q2 + qj q1 * qo q2 + qk q1 * qi q2,
      qk = qo q1 * qk q2 + qi q1 * qj q2 - qj q1 * qi q2 + qk q1 * qo q2\<rparr>"

definition conjugate :: "quaternion \<Rightarrow> quaternion" where
  "conjugate q1 = \<lparr>qo = qo q1, qi = - qi q1, qj = - qj q1, qk = - qk q1\<rparr>"

definition vector_part :: "quaternion \<Rightarrow> point3d" where
  "vector_part q1 = \<lparr>px = qi q1, py = qj q1, pz = qk q1\<rparr>"

definition sandwich :: "quaternion \<Rightarrow> point3d \<Rightarrow> point3d" where
  "sandwich q1 p = vector_part (hamilton (hamilton q1 (pure_quaternion p)) (conjugate q1))"


definition one_quaternion :: quaternion where
  "one_quaternion = \<lparr>qo = 1, qi = 0, qj = 0, qk = 0\<rparr>"

text \<open>
  The error that the specification calls DegenerateRotation: the
  \<^verbatim>\<open>RotationException\<close> of \<^verbatim>\<open>__update\<close> that quotes the message of the
  \<^verbatim>\<open>QuaternionException\<close> raised by \<^verbatim>\<open>unit()\<close>.
\<close>

definition degenerate_rotation :: error where
  "degenerate_rotation =
     RotationException (''Could not generate a rotation quaternion: '' @ [CHR 0x27]
        @ ''Cannot normalize a zero-quaternion'' @ [CHR 0x27])"

text \<open>
  The invariant of section 3 of the specification: the stored axis is a unit vector and
  the stored quaternion is \<open>cos (\<theta>/2) + sin (\<theta>/2) \<cdot> axis\<close> for the stored axis and
  angle.
\<close>

definition consistent :: "rotation \<Rightarrow> bool" where
  "consistent s \<longleftrightarrow>
     sqSum (rot_r s) = 1
     \<and> rot_q s = \<lparr>qo = cos (rot_theta s / 2),
                  qi = sin (rot_theta s / 2) * px (rot_r s),
                  qj = sin (rot_theta s / 2) * py (rot_r s),
                  qk = sin (rot_theta s / 2) * pz (rot_r s)\<rparr>"

section \<open>Basic facts about the model\<close>

lemma Quaternion_init_num:
  "Quaternion_init (PyNum a) (PyNum b) (PyNum c) (PyNum d) = Inr \<lparr>qo = a, qi = b, qj = c, qk = d\<rparr>"
  by (simp add: Quaternion_init_def)

lemma Point3D_init_num:
  "Point3D_init (PyNum x) (PyNum y) (PyNum z) = Inr \<lparr>px = x, py = y, pz = z\<rparr>"
  by (simp add: Point3D_init_def)

lemma eps_pos: "0 < eps"
  by (simp add: eps_def)

lemma sqsum_nonneg: "0 \<le> sqsum p"
  by (simp add: sqsum_def)

lemma norm_q_eq: "norm_q p = Inr (sqrt (sqsum p))"
  using sqsum_nonneg [of p] by (simp add: norm_q_def math_sqrt_def)

lemma unit_q_eq:
  "unit_q p =
     (if sqrt (sqsum p) < eps
      then Inl (QuaternionException ''Cannot normalize a zero-quaternion'')
      else Inr \<lparr>qo = qo p / sqrt (sqsum p), qi = qi p / sqrt (sqsum p),
                qj = qj p / sqrt (sqsum p), qk = qk p / sqrt (sqsum p)\<rparr>)"
  by (simp add: unit_q_def norm_q_eq Quaternion_init_num)

lemma sqsum_scaled:
  assumes "0 < n"
  shows "sqsum \<lparr>qo = a / n, qi = b / n, qj = c / n, qk = d / n\<rparr>
           = sqsum \<lparr>qo = a, qi = b, qj = c, qk = d\<rparr> / (n * n)"
  using assms by (simp add: sqsum_def add_divide_distrib)

lemma sqsum_unit:
  assumes "eps \<le> sqrt (sqsum p)"
  shows "sqsum \<lparr>qo = qo p / sqrt (sqsum p), qi = qi p / sqrt (sqsum p),
                 qj = qj p / sqrt (sqsum p), qk = qk p / sqrt (sqsum p)\<rparr> = 1"
proof -
  have n: "0 < sqrt (sqsum p)"
    using assms eps_pos by linarith
  have sq: "sqrt (sqsum p) * sqrt (sqsum p) = sqsum p"
    using sqsum_nonneg [of p] by simp
  have "sqsum \<lparr>qo = qo p / sqrt (sqsum p), qi = qi p / sqrt (sqsum p),
                 qj = qj p / sqrt (sqsum p), qk = qk p / sqrt (sqsum p)\<rparr>
        = sqsum \<lparr>qo = qo p, qi = qi p, qj = qj p, qk = qk p\<rparr> / (sqrt (sqsum p) * sqrt (sqsum p))"
    using n by (rule sqsum_scaled)
  also have "\<dots> = sqsum p / sqsum p"
    by (simp add: sq sqsum_def)
  also have "\<dots> = 1"
    using n by simp
  finally show ?thesis .
qed

text \<open>
  \<^verbatim>\<open>__update\<close> in closed form: it fails when the norm of the stored axis is below
  \<open>eps\<close> and leaves the object as it found it; otherwise it stores the normalized axis
  and the rotation quaternion.
\<close>

lemma update_eq:
  "update s =
     (let n = sqrt (sqSum (rot_r s)) in
      if n < eps
      then (Some degenerate_rotation, s)
      else (None,
            \<lparr>rot_r = \<lparr>px = px (rot_r s) / n, py = py (rot_r s) / n, pz = pz (rot_r s) / n\<rparr>,
             rot_theta = rot_theta s,
             rot_q = \<lparr>qo = cos (0.5 * rot_theta s),
                      qi = px (rot_r s) / n * sin (0.5 * rot_theta s),
                      qj = py (rot_r s) / n * sin (0.5 * rot_theta s),
                      qk = pz (rot_r s) / n * sin (0.5 * rot_theta s)\<rparr>\<rparr>))"
  by (simp add: update_def Quaternion_init_num unit_q_eq sqsum_def sqSum_def imul_def iadd_def
      Let_def degenerate_rotation_def)

lemma sqSum_zero: "sqSum \<lparr>px = 0, py = 0, pz = 0\<rparr> = 0"
  by (simp add: sqSum_def)

lemma mul_quaternion: "mul q1 (PyQuaternion q2) = Inr (hamilton q1 q2)"
  by (simp add: mul_def hamilton_def Quaternion_init_num)

lemma conj_q_eq: "conj_q q1 = Inr (conjugate q1)"
  by (simp add: conj_q_def conjugate_def Quaternion_init_num)

lemma rotate_rot_point: "rotate_rot s (PyPoint3D p) = Inr (sandwich (rot_q s) p)"
  by (simp add: rotate_rot_def Quaternion_init_num mul_quaternion conj_q_eq Point3D_init_num
      sandwich_def vector_part_def pure_quaternion_def)

lemma rotate_rot_other:
  "\<not> isPoint3D v \<Longrightarrow>
     rotate_rot s v = Inl (RotationException ''Input must be an instance of Point3D'')"
  by (cases v) (simp_all add: rotate_rot_def isPoint3D_def)

lemma reciprocal_eq:
  "reciprocal p =
     (if sqsum p < eps
      then Inl (QuaternionException ''Reciprocal of a zero-quaternion does not exist'')
      else Inr \<lparr>qo = qo p / sqsum p, qi = - (qi p / sqsum p),
                qj = - (qj p / sqsum p), qk = - (qk p / sqsum p)\<rparr>)"
  by (simp add: reciprocal_def Quaternion_init_num Let_def)

lemma hamilton_reciprocal_right:
  assumes "sqsum p \<noteq> 0"
  shows "hamilton p \<lparr>qo = qo p / sqsum p, qi = - (qi p / sqsum p),
                      qj = - (qj p / sqsum p), qk = - (qk p / sqsum p)\<rparr> = one_quaternion"
proof -
  have o: "(qo p * qo p + qi p * qi p + qj p * qj p + qk p * qk p) / sqsum p = 1"
    using assms by (simp add: sqsum_def)
  have "qo p * (qo p / sqsum p) - qi p * (- (qi p / sqsum p)) - qj p * (- (qj p / sqsum p))
          - qk p * (- (qk p / sqsum p))
        = (qo p * qo p + qi p * qi p + qj p * qj p + qk p * qk p) / sqsum p"
    by (simp add: add_divide_distrib)
  with o show ?thesis
    by (simp add: hamilton_def one_quaternion_def mult.commute)
qed

lemma hamilton_reciprocal_left:
  assumes "sqsum p \<noteq> 0"
  shows "hamilton \<lparr>qo = qo p / sqsum p, qi = - (qi p / sqsum p),
                    qj = - (qj p / sqsum p), qk = - (qk p / sqsum p)\<rparr> p = one_quaternion"
proof -
  have o: "(qo p * qo p + qi p * qi p + qj p * qj p + qk p * qk p) / sqsum p = 1"
    using assms by (simp add: sqsum_def)
  have "qo p / sqsum p * qo p - (- (qi p / sqsum p)) * qi p - (- (qj p / sqsum p)) * qj p
          - (- (qk p / sqsum p)) * qk p
        = (qo p * qo p + qi p * qi p + qj p * qj p + qk p * qk p) / sqsum p"
    by (simp add: add_divide_distrib)
  with o show ?thesis
    by (simp add: hamilton_def one_quaternion_def mult.commute)
qed

lemma sqSum_nonneg: "0 \<le> sqSum p"
  by (simp add: sqSum_def)

lemma sqSum_scaled:
  assumes "0 < n"
  shows "sqSum \<lparr>px = a / n, py = b / n, pz = c / n\<rparr> = sqSum \<lparr>px = a, py = b, pz = c\<rparr> / (n * n)"
  using assms by (simp add: sqSum_def add_divide_distrib)

lemma sqSum_unit:
  assumes "eps \<le> sqrt (sqSum p)"
  shows "sqSum \<lparr>px = px p / sqrt (sqSum p), py = py p / sqrt (sqSum p),
                 pz = pz p / sqrt (sqSum p)\<rparr> = 1"
proof -
  have n: "0 < sqrt (sqSum p)"
    using assms eps_pos by linarith
  have sq: "sqrt (sqSum p) * sqrt (sqSum p) = sqSum p"
    using sqSum_nonneg [of p] by simp
  have "sqSum \<lparr>px = px p / sqrt (sqSum p), py = py p / sqrt (sqSum p),
                 pz = pz p / sqrt (sqSum p)\<rparr>
        = sqSum \<lparr>px = px p, py = py p, pz = pz p\<rparr> / (sqrt (sqSum p) * sqrt (sqSum p))"
    using n by (rule sqSum_scaled)
  also have "\<dots> = sqSum p / sqSum p"
    by (simp add: sq sqSum_def)
  also have "\<dots> = 1"
    using n by simp
  finally show ?thesis .
qed

lemma update_None_consistent:
  assumes "update s = (None, s')"
  shows "consistent s' \<and> rot_theta s' = rot_theta s"
proof -
  have ge: "eps \<le> sqrt (sqSum (rot_r s))"
    using assms by (simp add: update_eq Let_def split: if_splits)
  then have s': "s' = \<lparr>rot_r = \<lparr>px = px (rot_r s) / sqrt (sqSum (rot_r s)),
                               py = py (rot_r s) / sqrt (sqSum (rot_r s)),
                               pz = pz (rot_r s) / sqrt (sqSum (rot_r s))\<rparr>,
                    rot_theta = rot_theta s,
                    rot_q = \<lparr>qo = cos (0.5 * rot_theta s),
                      qi = px (rot_r s) / sqrt (sqSum (rot_r s)) * sin (0.5 * rot_theta s),
                      qj = py (rot_r s) / sqrt (sqSum (rot_r s)) * sin (0.5 * rot_theta s),
                      qk = pz (rot_r s) / sqrt (sqSum (rot_r s)) * sin (0.5 * rot_theta s)\<rparr>\<rparr>"
    using assms by (simp add: update_eq Let_def split: if_splits)
  show ?thesis
    using sqSum_unit [OF ge] by (simp add: s' consistent_def)
qed

lemma sqsum_axis_angle:
  assumes "x * x + y * y + z * z = (1::real)"
  shows "sqsum \<lparr>qo = cos t, qi = sin t * x, qj = sin t * y, qk = sin t * z\<rparr> = 1"
proof -
  have "sqsum \<lparr>qo = cos t, qi = sin t * x, qj = sin t * y, qk = sin t * z\<rparr>
        = (cos t)\<^sup>2 + (sin t)\<^sup>2 * (x * x + y * y + z * z)"
    by (simp add: sqsum_def power2_eq_square algebra_simps)
  also have "\<dots> = 1"
    by (simp add: assms)
  finally show ?thesis .
qed

lemma consistent_sqsum:
  assumes "consistent s"
  shows "sqsum (rot_q s) = 1"
proof -
  have u: "px (rot_r s) * px (rot_r s) + py (rot_r s) * py (rot_r s)
             + pz (rot_r s) * pz (rot_r s) = 1"
    using assms by (simp add: consistent_def sqSum_def)
  have "rot_q s = \<lparr>qo = cos (rot_theta s / 2),
                  qi = sin (rot_theta s / 2) * px (rot_r s),
                  qj = sin (rot_theta s / 2) * py (rot_r s),
                  qk = sin (rot_theta s / 2) * pz (rot_r s)\<rparr>"
    using assms by (simp add: consistent_def)
  then show ?thesis
    using sqsum_axis_angle [OF u, of "rot_theta s / 2"] by simp
qed

lemma setAxis_None:
  assumes "setAxis s rx ry rz = (None, s')"
  shows "\<exists>p. update (s\<lparr>rot_r := p\<rparr>) = (None, s')"
  using assms by (auto simp: setAxis_def split: sum.splits error.splits)

lemma setAngle_None:
  assumes "setAngle s a = (None, s')"
  shows "\<exists>x. a = PyNum x \<and> update (s\<lparr>rot_theta := x\<rparr>) = (None, s')"
  using assms by (cases a) (simp_all add: setAngle_def)

lemma Rotation_init_Inr:
  assumes "Rotation_init rx ry rz a = Inr s'"
  shows "\<exists>x. a = PyNum x \<and> setAxis (new_rotation\<lparr>rot_theta := x\<rparr>) rx ry rz = (None, s')"
  using assms by (cases a) (auto simp: Rotation_init_def split: prod.splits option.splits)

lemma derived_consistent:
  assumes "Rotation_init rx ry rz a = Inr s' \<or> setAxis s rx ry rz = (None, s')
           \<or> setAngle s a = (None, s')"
  shows "consistent s'"
  using assms
  by (auto dest!: Rotation_init_Inr setAxis_None setAngle_None update_None_consistent)

lemma sandwich_px:
  "px (sandwich (conjugate q1) (sandwich q1 p)) = (sqsum q1)\<^sup>2 * px p"
  by (simp add: sandwich_def hamilton_def conjugate_def vector_part_def pure_quaternion_def sqsum_def
      power2_eq_square algebra_simps)

lemma sandwich_py:
  "py (sandwich (conjugate q1) (sandwich q1 p)) = (sqsum q1)\<^sup>2 * py p"
  by (simp add: sandwich_def hamilton_def conjugate_def vector_part_def pure_quaternion_def sqsum_def
      power2_eq_square algebra_simps)

lemma sandwich_pz:
  "pz (sandwich (conjugate q1) (sandwich q1 p)) = (sqsum q1)\<^sup>2 * pz p"
  by (simp add: sandwich_def hamilton_def conjugate_def vector_part_def pure_quaternion_def sqsum_def
      power2_eq_square algebra_simps)

lemma sandwich_round_trip:
  assumes "sqsum q1 = 1"
  shows "sandwich (conjugate q1) (sandwich q1 p) = p"
proof (rule point3d.equality)
  show "px (sandwich (conjugate q1) (sandwich q1 p)) = px p"
    by (simp add: sandwich_px assms)
  show "py (sandwich (conjugate q1) (sandwich q1 p)) = py p"
    by (simp add: sandwich_py assms)
  show "pz (sandwich (conjugate q1) (sandwich q1 p)) = pz p"
    by (simp add: sandwich_pz assms)
  show "point3d.more (sandwich (conjugate q1) (sandwich q1 p)) = point3d.more p"
    by simp
qed

lemma setAngle_negated:
  assumes "consistent s"
  shows "setAngle s (PyNum (- rot_theta s))
           = (None, \<lparr>rot_r = rot_r s, rot_theta = - rot_theta s, rot_q = conjugate (rot_q s)\<rparr>)"
proof -
  have one: "sqrt (sqSum (rot_r s)) = 1"
    using assms by (simp add: consistent_def)
  have q: "rot_q s = \<lparr>qo = cos (rot_theta s / 2),
                  qi = sin (rot_theta s / 2) * px (rot_r s),
                  qj = sin (rot_theta s / 2) * py (rot_r s),
                  qk = sin (rot_theta s / 2) * pz (rot_r s)\<rparr>"
    using assms by (simp add: consistent_def)
  have "\<not> (1::real) < eps"
    by (simp add: eps_def)
  then show ?thesis
    by (simp add: setAngle_def update_eq one q conjugate_def mult.commute)
qed

lemma sqrt_sqSum_z2: "sqrt (sqSum \<lparr>px = 0, py = 0, pz = 2\<rparr>) = 2"
  by (simp add: sqSum_def)

lemma init_z2:
  "Rotation_init (PyNum 0) (PyNum 0) (PyNum 2) (PyNum pi)
     = Inr \<lparr>rot_r = \<lparr>px = 0, py = 0, pz = 1\<rparr>, rot_theta = pi,
            rot_q = \<lparr>qo = 0, qi = 0, qj = 0, qk = 1\<rparr>\<rparr>"
  by (simp add: Rotation_init_def setAxis_def Point3D_init_num update_eq sqrt_sqSum_z2 eps_def
      new_rotation_def)


text \<open>
  The members that \<open>new_rotation\<close> gives to the object under construction do not
  matter: \<^verbatim>\<open>setAxis\<close> run on any object with the angle stored ends as the
  constructor does.
\<close>

lemma setAxis_new:
  "(case setAxis (s\<lparr>rot_theta := a\<rparr>) rx ry rz of (Some e, _) \<Rightarrow> Inl e | (None, self) \<Rightarrow> Inr self)
     = Rotation_init rx ry rz (PyNum a)"
  by (simp add: Rotation_init_def setAxis_def update_eq Let_def
      split: sum.splits error.splits)

section \<open>Quaternion multiplication\<close>


section \<open>The component setters\<close>

text \<open>
  Claim C9. Each of \<^verbatim>\<open>setScalar\<close>, \<^verbatim>\<open>setI\<close>, \<^verbatim>\<open>setJ\<close>, \<^verbatim>\<open>setK\<close> raises
  \<^verbatim>\<open>QuaternionException\<close> on an argument that is not a number and leaves the
  receiver as it was; on a number it updates its own component only and returns the
  receiver.
\<close>

theorem setters_validate:
  "(\<not> isFloat v \<longrightarrow>
      setScalar q1 v = (Inl (QuaternionException ''Invalid input argument''), q1)
    \<and> setI q1 v = (Inl (QuaternionException ''Invalid input argument''), q1)
    \<and> setJ q1 v = (Inl (QuaternionException ''Invalid input argument''), q1)
    \<and> setK q1 v = (Inl (QuaternionException ''Invalid input argument''), q1))
   \<and> (isFloat v \<longrightarrow> (\<exists>x. v = PyNum x
    \<and> setScalar q1 v = (Inr (q1\<lparr>qo := x\<rparr>), q1\<lparr>qo := x\<rparr>)
    \<and> setI q1 v = (Inr (q1\<lparr>qi := x\<rparr>), q1\<lparr>qi := x\<rparr>)
    \<and> setJ q1 v = (Inr (q1\<lparr>qj := x\<rparr>), q1\<lparr>qj := x\<rparr>)
    \<and> setK q1 v = (Inr (q1\<lparr>qk := x\<rparr>), q1\<lparr>qk := x\<rparr>)))"
  by (cases v) (simp_all add: isFloat_def setScalar_def setI_def setJ_def setK_def Let_def)

theorem setters_validate_witness:
  "\<not> isFloat (PyStr ''abc'')
   \<and> setJ \<lparr>qo = 1, qi = 2, qj = 3, qk = 4\<rparr> (PyStr ''abc'')
       = (Inl (QuaternionException ''Invalid input argument''), \<lparr>qo = 1, qi = 2, qj = 3, qk = 4\<rparr>)
   \<and> isFloat (PyNum 7)
   \<and> setJ \<lparr>qo = 1, qi = 2, qj = 3, qk = 4\<rparr> (PyNum 7)
       = (Inr \<lparr>qo = 1, qi = 2, qj = 7, qk = 4\<rparr>, \<lparr>qo = 1, qi = 2, qj = 7, qk = 4\<rparr>)"
  using setters_validate [of "PyStr ''abc''" "\<lparr>qo = 1, qi = 2, qj = 3, qk = 4\<rparr>"]
    setters_validate [of "PyNum 7" "\<lparr>qo = 1, qi = 2, qj = 3, qk = 4\<rparr>"]
  by (simp add: isFloat_def)

section \<open>Rotating a point\<close>

text \<open>
  Claim C1. For every rotation object and every point \<open>p\<close>, \<^verbatim>\<open>rotate\<close> returns the
  point whose components are the i, j, k components of \<open>q \<cdot> p \<cdot> conj q\<close>, where \<open>q\<close> is
  the stored rotation quaternion and \<open>p\<close> is embedded as the pure quaternion
  \<open>0 + x i + y j + z k\<close>; on an argument that is not a point it raises
  \<^verbatim>\<open>RotationException\<close>.
\<close>

theorem rotate_sandwich_product:
  "rotate_rot self (PyPoint3D p)
     = Inr (vector_part (hamilton (hamilton (rot_q self) (pure_quaternion p)) (conjugate (rot_q self))))
   \<and> (\<not> isPoint3D v \<longrightarrow>
        rotate_rot self v = Inl (RotationException ''Input must be an instance of Point3D''))"
  using rotate_rot_point [of self p] rotate_rot_other [of v self]
  by (simp add: sandwich_def)

theorem rotate_sandwich_product_witness:
  "rotate_rot \<lparr>rot_r = \<lparr>px = 0, py = 0, pz = 1\<rparr>, rot_theta = pi,
               rot_q = \<lparr>qo = 0, qi = 0, qj = 0, qk = 1\<rparr>\<rparr> (PyPoint3D \<lparr>px = 1, py = 1, pz = 1\<rparr>)
     = Inr \<lparr>px = - 1, py = - 1, pz = 1\<rparr>
   \<and> \<not> isPoint3D (PyNum 5)
   \<and> rotate_rot \<lparr>rot_r = \<lparr>px = 0, py = 0, pz = 1\<rparr>, rot_theta = pi,
               rot_q = \<lparr>qo = 0, qi = 0, qj = 0, qk = 1\<rparr>\<rparr> (PyNum 5)
     = Inl (RotationException ''Input must be an instance of Point3D'')"
  using rotate_sandwich_product [of "\<lparr>rot_r = \<lparr>px = 0, py = 0, pz = 1\<rparr>, rot_theta = pi,
               rot_q = \<lparr>qo = 0, qi = 0, qj = 0, qk = 1\<rparr>\<rparr>" "\<lparr>px = 1, py = 1, pz = 1\<rparr>" "PyNum 5"]
  by (simp add: isPoint3D_def vector_part_def hamilton_def pure_quaternion_def conjugate_def)

section \<open>The default constructor\<close>

text \<open>
  Claim C10. \<^verbatim>\<open>Rotation()\<close> with all default arguments (axis 0, 0, 0 and angle 0)
  raises the \<^verbatim>\<open>RotationException\<close> of a degenerate axis.
\<close>

theorem default_rotation_degenerate:
  "Rotation_init (PyNum 0) (PyNum 0) (PyNum 0) (PyNum 0) = Inl degenerate_rotation"
  by (simp add: Rotation_init_def setAxis_def Point3D_init_num update_eq sqSum_zero eps_pos)

section \<open>Reciprocal, unit and norm\<close>

text \<open>
  Claim C5 says that \<^verbatim>\<open>reciprocal\<close> returns the conjugate divided by the squared
  norm and that its product with the receiver, on either side, is 1. The code breaks
  this on a quaternion whose four members are ints, where \<^verbatim>\<open>/\<close> is the floor
  division of Python 2: \<^verbatim>\<open>Quaternion(1, 1, 1, 1).reciprocal()\<close> is
  \<open>0 - i - j - k\<close>, not \<open>(1 - i - j - k) / 4\<close>, and both products with the receiver
  are \<open>3 - i - j - k\<close>, not 1.
\<close>

theorem reciprocal_floor_division:
  "reciprocal_ints 1 1 1 1 = Inr \<lparr>qo = 0, qi = - 1, qj = - 1, qk = - 1\<rparr>
   \<and> \<lparr>qo = 0, qi = - 1, qj = - 1, qk = - 1\<rparr> \<noteq> \<lparr>qo = 1 / 4, qi = - 1 / 4, qj = - 1 / 4, qk = - 1 / 4\<rparr>
   \<and> mul \<lparr>qo = 1, qi = 1, qj = 1, qk = 1\<rparr> (PyQuaternion \<lparr>qo = 0, qi = - 1, qj = - 1, qk = - 1\<rparr>)
       = Inr \<lparr>qo = 3, qi = - 1, qj = - 1, qk = - 1\<rparr>
   \<and> mul \<lparr>qo = 0, qi = - 1, qj = - 1, qk = - 1\<rparr> (PyQuaternion \<lparr>qo = 1, qi = 1, qj = 1, qk = 1\<rparr>)
       = Inr \<lparr>qo = 3, qi = - 1, qj = - 1, qk = - 1\<rparr>
   \<and> \<lparr>qo = 3, qi = - 1, qj = - 1, qk = - 1\<rparr> \<noteq> one_quaternion"
  by (simp add: reciprocal_ints_def eps_def Quaternion_init_num mul_quaternion hamilton_def
      one_quaternion_def)

text \<open>
  With a float among the members and in exact arithmetic the reciprocal is the inverse:
  for every quaternion whose squared norm is at least \<open>eps\<close>, \<^verbatim>\<open>reciprocal\<close>
  returns the conjugate divided by the squared norm, and the product of the quaternion
  with it, on either side, is 1.
\<close>

lemma reciprocal_true_division:
  "(eps \<le> sqsum p \<longrightarrow>
      (\<exists>c r. conj_q p = Inr c \<and> reciprocal p = Inr r
         \<and> r = \<lparr>qo = qo c / sqsum p, qi = qi c / sqsum p, qj = qj c / sqsum p, qk = qk c / sqsum p\<rparr>
         \<and> mul p (PyQuaternion r) = Inr one_quaternion
         \<and> mul r (PyQuaternion p) = Inr one_quaternion))
   \<and> (sqsum p < eps \<longrightarrow>
        reciprocal p = Inl (QuaternionException ''Reciprocal of a zero-quaternion does not exist''))
   \<and> ((\<exists>e. reciprocal p = Inl e) \<longleftrightarrow> sqsum p < eps)"
proof (cases "sqsum p < eps")
  case True
  then show ?thesis
    by (simp add: reciprocal_eq)
next
  case False
  then have nz: "sqsum p \<noteq> 0"
    using eps_pos by linarith
  from False show ?thesis
    by (simp add: reciprocal_eq conj_q_eq conjugate_def mul_quaternion
        hamilton_reciprocal_right [OF nz] hamilton_reciprocal_left [OF nz])
qed

text \<open>
  \<^verbatim>\<open>unit\<close> in exact arithmetic: \<^verbatim>\<open>norm\<close> returns the square root of the sum of
  the squares of the four members; when that is at least \<open>eps\<close>, \<^verbatim>\<open>unit\<close> returns
  the members divided by it, and the squares of the members of the result add up to 1;
  \<^verbatim>\<open>unit\<close> raises exactly when the norm is below \<open>eps\<close>. (The running program
  departs from this when the sum of the squares overflows:
  \<^verbatim>\<open>Quaternion(2.0**512, 0.0, 0.0, 0.0).unit()\<close> is the zero quaternion.)
\<close>

lemma unit_exact:
  "norm_q p = Inr (sqrt (qo p * qo p + qi p * qi p + qj p * qj p + qk p * qk p))
   \<and> (eps \<le> sqrt (sqsum p) \<longrightarrow>
        (\<exists>u. unit_q p = Inr u
           \<and> u = \<lparr>qo = qo p / sqrt (sqsum p), qi = qi p / sqrt (sqsum p),
                   qj = qj p / sqrt (sqsum p), qk = qk p / sqrt (sqsum p)\<rparr>
           \<and> qo u * qo u + qi u * qi u + qj u * qj u + qk u * qk u = 1))
   \<and> (sqrt (sqsum p) < eps \<longrightarrow>
        unit_q p = Inl (QuaternionException ''Cannot normalize a zero-quaternion''))
   \<and> ((\<exists>e. unit_q p = Inl e) \<longleftrightarrow> sqrt (sqsum p) < eps)"
proof (intro conjI)
  show "norm_q p = Inr (sqrt (qo p * qo p + qi p * qi p + qj p * qj p + qk p * qk p))"
    by (simp add: norm_q_eq sqsum_def)
  show "eps \<le> sqrt (sqsum p) \<longrightarrow>
        (\<exists>u. unit_q p = Inr u
           \<and> u = \<lparr>qo = qo p / sqrt (sqsum p), qi = qi p / sqrt (sqsum p),
                   qj = qj p / sqrt (sqsum p), qk = qk p / sqrt (sqsum p)\<rparr>
           \<and> qo u * qo u + qi u * qi u + qj u * qj u + qk u * qk u = 1)"
    using sqsum_unit [of p] by (simp add: unit_q_eq not_less sqsum_def [of "\<lparr>qo = _, qi = _, qj = _, qk = _\<rparr>"])
  show "sqrt (sqsum p) < eps \<longrightarrow>
          unit_q p = Inl (QuaternionException ''Cannot normalize a zero-quaternion'')"
    by (simp add: unit_q_eq)
  show "(\<exists>e. unit_q p = Inl e) \<longleftrightarrow> sqrt (sqsum p) < eps"
    by (simp add: unit_q_eq)
qed




section \<open>Re-derivation of the rotation state\<close>




section \<open>The invariant of a rotation\<close>

text \<open>
  Claim C3 says that after every \<^verbatim>\<open>setAxis\<close> call the stored axis is a unit vector
  and the stored quaternion is the one of the stored axis and angle. The code breaks
  this on a call that raises: \<^verbatim>\<open>setAxis\<close> stores the new axis before
  \<^verbatim>\<open>__update\<close> validates it. On the rotation about \<open>(0, 0, 2)\<close> by \<open>\<pi>\<close>,
  \<^verbatim>\<open>setAxis(0, 0, 0)\<close> raises and leaves the zero vector as the stored axis next to
  the quaternion of the old axis: \<^verbatim>\<open>getAxis().sqSum()\<close> is 0, and the stored
  quaternion \<open>k\<close> is not the one of the stored axis and angle. The sibling path, an
  argument of a wrong type, raises and leaves the object as it was.
\<close>

theorem failed_setAxis_leaves_zero_axis:
  "Rotation_init (PyNum 0) (PyNum 0) (PyNum 2) (PyNum pi)
     = Inr \<lparr>rot_r = \<lparr>px = 0, py = 0, pz = 1\<rparr>, rot_theta = pi,
            rot_q = \<lparr>qo = 0, qi = 0, qj = 0, qk = 1\<rparr>\<rparr>
   \<and> setAxis \<lparr>rot_r = \<lparr>px = 0, py = 0, pz = 1\<rparr>, rot_theta = pi,
            rot_q = \<lparr>qo = 0, qi = 0, qj = 0, qk = 1\<rparr>\<rparr> (PyNum 0) (PyNum 0) (PyNum 0)
     = (Some degenerate_rotation,
        \<lparr>rot_r = \<lparr>px = 0, py = 0, pz = 0\<rparr>, rot_theta = pi,
         rot_q = \<lparr>qo = 0, qi = 0, qj = 0, qk = 1\<rparr>\<rparr>)
   \<and> getAxis \<lparr>rot_r = \<lparr>px = 0, py = 0, pz = 0\<rparr>, rot_theta = pi,
         rot_q = \<lparr>qo = 0, qi = 0, qj = 0, qk = 1\<rparr>\<rparr> 1 = Inr \<lparr>px = 0, py = 0, pz = 0\<rparr>
   \<and> sqSum \<lparr>px = 0, py = 0, pz = 0\<rparr> \<noteq> 1
   \<and> getRotationQuaternion \<lparr>rot_r = \<lparr>px = 0, py = 0, pz = 0\<rparr>, rot_theta = pi,
         rot_q = \<lparr>qo = 0, qi = 0, qj = 0, qk = 1\<rparr>\<rparr>
       \<noteq> \<lparr>qo = cos (pi / 2), qi = sin (pi / 2) * 0, qj = sin (pi / 2) * 0, qk = sin (pi / 2) * 0\<rparr>
   \<and> setAxis \<lparr>rot_r = \<lparr>px = 0, py = 0, pz = 1\<rparr>, rot_theta = pi,
            rot_q = \<lparr>qo = 0, qi = 0, qj = 0, qk = 1\<rparr>\<rparr> (PyStr ''z'') (PyNum 0) (PyNum 0)
     = (Some (RotationException ''Invalid input argument''),
        \<lparr>rot_r = \<lparr>px = 0, py = 0, pz = 1\<rparr>, rot_theta = pi,
         rot_q = \<lparr>qo = 0, qi = 0, qj = 0, qk = 1\<rparr>\<rparr>)"
  by (simp add: init_z2 setAxis_def Point3D_init_num Point3D_init_def update_eq sqSum_zero eps_pos
      getAxis_def getRotationQuaternion_def)

text \<open>
  In exact arithmetic the invariant holds after every call that returns: after every
  construction that returns an object, and after every \<^verbatim>\<open>setAxis\<close> or
  \<^verbatim>\<open>setAngle\<close> call that returns without raising, the stored rotation quaternion
  has norm 1, \<^verbatim>\<open>getAxis().sqSum()\<close> is 1, and the stored quaternion is
  \<open>cos (\<theta>/2) + sin (\<theta>/2) \<cdot> axis\<close> for the stored axis and angle. (The running program
  departs from this when the squared norm of the axis overflows:
  \<^verbatim>\<open>Rotation(2.0**512, 0, 0, 0)\<close> returns an object whose stored axis is the zero
  vector.)
\<close>

lemma invariant_exact:
  assumes "Rotation_init rx ry rz a = Inr s' \<or> setAxis s rx ry rz = (None, s')
           \<or> setAngle s a = (None, s')"
  shows "norm_q (getRotationQuaternion s') = Inr 1
         \<and> (\<exists>ax. getAxis s' 1 = Inr ax \<and> sqSum ax = 1)
         \<and> getRotationQuaternion s'
             = \<lparr>qo = cos (getAngle s' / 2),
                qi = sin (getAngle s' / 2) * px (rot_r s'),
                qj = sin (getAngle s' / 2) * py (rot_r s'),
                qk = sin (getAngle s' / 2) * pz (rot_r s')\<rparr>"
proof -
  have c: "consistent s'"
    using assms by (rule derived_consistent)
  have n: "norm_q (getRotationQuaternion s') = Inr 1"
    using consistent_sqsum [OF c] by (simp add: norm_q_eq getRotationQuaternion_def)
  have ax: "getAxis s' 1 = Inr (rot_r s')"
    by (simp add: getAxis_def Point3D_init_num)
  show ?thesis
    using c n ax by (simp add: consistent_def getRotationQuaternion_def getAngle_def)
qed

section \<open>Rotating there and back\<close>

text \<open>
  In exact arithmetic the round trip is the identity: for every rotation object that a
  constructor, \<^verbatim>\<open>setAxis\<close> or \<^verbatim>\<open>setAngle\<close> has returned, with angle \<open>\<theta>\<close>,
  and every point \<open>p\<close>, rotating \<open>p\<close>, then calling \<^verbatim>\<open>setAngle(-\<theta>)\<close>, which
  succeeds, then rotating the result gives \<open>p\<close> back. (The running program departs from
  this when the squared norm of the axis overflows: on the object that
  \<^verbatim>\<open>Rotation(2.0**512, 0, 0, t)\<close> returns, whose stored axis is the zero vector,
  \<^verbatim>\<open>setAngle(-t)\<close> raises.)
\<close>

lemma round_trip_exact:
  assumes "Rotation_init rx ry rz a = Inr s \<or> setAxis s0 rx ry rz = (None, s)
           \<or> setAngle s0 a = (None, s)"
  shows "\<exists>p1 s'. rotate_rot s (PyPoint3D p) = Inr p1
           \<and> setAngle s (PyNum (- getAngle s)) = (None, s')
           \<and> rotate_rot s' (PyPoint3D p1) = Inr p"
proof -
  have c: "consistent s"
    using assms by (rule derived_consistent)
  have n: "sqsum (rot_q s) = 1"
    using c by (rule consistent_sqsum)
  show ?thesis
    by (simp add: rotate_rot_point getAngle_def setAngle_negated [OF c] sandwich_round_trip [OF n])
qed

end
